theory Spec2Isabelle
  imports Complex_Main "HOL-Library.AList"
begin

section \<open>Arrays\<close>

text \<open>
  The program stores its data in numpy arrays of float64. Here a float64 is a real number:
  arithmetic is exact, and there is no rounding, no overflow, no infinity and no NaN.
  Where the program can produce a non-finite number (a division by zero, the square root
  of a negative number) the model says so with the failure \<open>NonFinite\<close> instead of
  going on with the value that HOL gives to \<open>a / 0\<close> or \<open>sqrt (- a)\<close>.

  Two behaviours of \<open>numpy.delete\<close> changed with numpy 1.19 (an axis on a
  zero-dimensional array, and indices out of bounds: both ignored with a
  DeprecationWarning before, both raised since). The model takes the release as a
  parameter.
\<close>

datatype numpy = Legacy | Current

datatype error =
    RuntimeError_size   \<comment> \<open>'Size of property array does not match number of particles.'\<close>
  | RuntimeError_mass   \<comment> \<open>'To accelerate particles we need a mass ensemble or particle property'\<close>
  | IndexError
  | AxisError
  | ValueError

text \<open>
  How a call can end other than by returning: with an exception, or (not an exception of the
  program, which goes on with inf or NaN) with a number that is not finite, where the model
  stops following it. A call that changes the ensemble ends with \<open>None\<close> when it
  returns, and with the ensemble as the call left it in every case.
\<close>

datatype failure = Raised error | NonFinite

type_synonym vec3 = "real \<times> real \<times> real"

text \<open>An array of any shape: its shape and its entries in C order.\<close>

record ndarray =
  shape :: "nat list"
  data :: "real list"

text \<open>\<open>a.shape[0]\<close>, which raises on a zero-dimensional array.\<close>

definition shape0 :: "ndarray \<Rightarrow> error + nat" where
  "shape0 a = (case shape a of [] \<Rightarrow> Inl IndexError | n # _ \<Rightarrow> Inr n)"

text \<open>\<open>a[i]\<close> for an array of at least one dimension: the \<open>i\<close>-th entry along axis 0.\<close>

definition entry :: "ndarray \<Rightarrow> nat \<Rightarrow> ndarray" where
  "entry a i =
     (let r = prod_list (tl (shape a))
      in \<lparr>shape = tl (shape a), data = take r (drop (i * r) (data a))\<rparr>)"

text \<open>
  \<open>a.resize(new_shape)\<close>, in place: the entries are kept in storage order, cut or
  filled with zeros at the end, and the array gets the new shape.
\<close>

definition nd_resize :: "nat list \<Rightarrow> ndarray \<Rightarrow> ndarray" where
  "nd_resize new_shape a =
     (let n = prod_list new_shape
      in \<lparr>shape = new_shape, data = take n (data a) @ replicate (n - length (data a)) 0\<rparr>)"

text \<open>
  The positions and the velocities have shape \<open>(N, 3)\<close>: a list of rows. Resizing them
  to \<open>[new_size, 3]\<close> keeps the width of a row, so whole rows are kept, cut or added.
\<close>

definition rows_resize :: "nat \<Rightarrow> vec3 list \<Rightarrow> vec3 list" where
  "rows_resize new_size rows =
     take new_size rows @ replicate (new_size - length rows) (0, 0, 0)"

text \<open>\<open>numpy.delete(arr, indices, 0)\<close> on an array of at least one dimension.\<close>

definition survivors :: "nat list \<Rightarrow> 'a list \<Rightarrow> 'a list" where
  "survivors indices rows =
     map snd (filter (\<lambda>(i, r). i \<notin> set indices) (zip [0..<length rows] rows))"

definition np_delete :: "numpy \<Rightarrow> 'a list \<Rightarrow> nat list \<Rightarrow> error + 'a list" where
  "np_delete np rows indices =
     (if np = Current \<and> list_ex (\<lambda>i. length rows \<le> i) indices then Inl IndexError
      else Inr (survivors indices rows))"

text \<open>
  \<open>numpy.delete(key, indices, 0)\<close> on a string, which numpy takes as a
  zero-dimensional array: a copy before numpy 1.19, an error since.
\<close>

definition np_delete_0d :: "numpy \<Rightarrow> string \<Rightarrow> nat list \<Rightarrow> error + string" where
  "np_delete_0d np key indices = (case np of Legacy \<Rightarrow> Inr key | Current \<Rightarrow> Inl AxisError)"

section \<open>Ensemble\<close>

record ensemble =
  ens_x :: "vec3 list"
  ens_v :: "vec3 list"
  ensemble_properties :: "(string \<times> ndarray) list"
  particle_properties :: "(string \<times> ndarray) list"

definition Ensemble_init :: "nat \<Rightarrow> ensemble" where
  "Ensemble_init num_ptcls =
     \<lparr>ens_x = replicate num_ptcls (0, 0, 0), ens_v = replicate num_ptcls (0, 0, 0),
      ensemble_properties = [], particle_properties = []\<rparr>"

definition get_num_ptcls :: "ensemble \<Rightarrow> nat" where
  "get_num_ptcls e = length (ens_x e)"

definition set_particle_property ::
  "string \<Rightarrow> ndarray \<Rightarrow> ensemble \<Rightarrow> failure option \<times> ensemble" where
  "set_particle_property key prop e =
     (case shape0 prop of
        Inl err \<Rightarrow> (Some (Raised err), e)
      | Inr n \<Rightarrow>
          if n \<noteq> get_num_ptcls e then (Some (Raised RuntimeError_size), e)
          else (None, e\<lparr>particle_properties := AList.update key prop (particle_properties e)\<rparr>))"

definition Ensemble_resize :: "nat \<Rightarrow> ensemble \<Rightarrow> ensemble" where
  "Ensemble_resize new_size e =
     e\<lparr>ens_x := rows_resize new_size (ens_x e),
       ens_v := rows_resize new_size (ens_v e),
       particle_properties :=
         map (\<lambda>(particle_prop, a). (particle_prop, nd_resize [new_size] a))
           (particle_properties e)\<rparr>"

text \<open>
  The loop of \<open>delete\<close> runs over the keys of \<open>particle_properties\<close> and assigns the
  result of \<open>numpy.delete\<close> to its own variable: the stored arrays are not touched.
\<close>

fun delete_loop :: "numpy \<Rightarrow> string list \<Rightarrow> nat list \<Rightarrow> failure option" where
  "delete_loop np [] indices = None"
| "delete_loop np (property # keys) indices =
     (case np_delete_0d np property indices of
        Inl err \<Rightarrow> Some (Raised err)
      | Inr property' \<Rightarrow> delete_loop np keys indices)"

definition Ensemble_delete ::
  "numpy \<Rightarrow> nat list \<Rightarrow> ensemble \<Rightarrow> failure option \<times> ensemble" where
  "Ensemble_delete np indices e =
     (case np_delete np (ens_x e) indices of
        Inl err \<Rightarrow> (Some (Raised err), e)
      | Inr x' \<Rightarrow>
          (case np_delete np (ens_v e) indices of
             Inl err \<Rightarrow> (Some (Raised err), e\<lparr>ens_x := x'\<rparr>)
           | Inr v' \<Rightarrow>
               (delete_loop np (map fst (particle_properties e)) indices,
                e\<lparr>ens_x := x', ens_v := v'\<rparr>)))"




section \<open>Sources\<close>

text \<open>
  A source is an object with two methods. Sources may keep a state of their own (a random
  generator, a counter), possibly shared: \<open>'w\<close> is the state of everything outside the
  ensemble, and each method takes it and returns it changed.
\<close>

record 'w source =
  num_ptcls_produced :: "real \<Rightarrow> 'w \<Rightarrow> nat \<times> 'w"
  source_produce_ptcls :: "real \<Rightarrow> nat \<Rightarrow> nat \<Rightarrow> ensemble \<times> 'w \<Rightarrow> ensemble \<times> 'w"

definition Source :: "'w source" where
  "Source = \<lparr>num_ptcls_produced = (\<lambda>dt w. (0, w)),
             source_produce_ptcls = (\<lambda>dt start stop ew. ew)\<rparr>"







section \<open>Sinks\<close>

fun vadd :: "vec3 \<Rightarrow> vec3 \<Rightarrow> vec3" where
  "vadd (a1, a2, a3) (b1, b2, b3) = (a1 + b1, a2 + b2, a3 + b3)"

fun vsub :: "vec3 \<Rightarrow> vec3 \<Rightarrow> vec3" where
  "vsub (a1, a2, a3) (b1, b2, b3) = (a1 - b1, a2 - b2, a3 - b3)"

fun smul :: "real \<Rightarrow> vec3 \<Rightarrow> vec3" where
  "smul c (a1, a2, a3) = (c * a1, c * a2, c * a3)"

fun dot :: "vec3 \<Rightarrow> vec3 \<Rightarrow> real" where
  "dot (a1, a2, a3) (b1, b2, b3) = a1 * b1 + a2 * b2 + a3 * b3"

text \<open>
  A sink is an object with two methods. \<open>record_absorption\<close> gets the ensemble itself and
  may change it.
\<close>

record sink =
  find_absorption_time :: "vec3 list \<Rightarrow> vec3 list \<Rightarrow> real \<Rightarrow> error + real list"
  record_absorption ::
    "ensemble \<Rightarrow> real \<Rightarrow> real list \<Rightarrow> nat list \<Rightarrow> failure option \<times> ensemble"

definition Sink :: sink where
  "Sink = \<lparr>find_absorption_time = (\<lambda>x v dt. Inr (replicate (length x) (2.0 * dt))),
           record_absorption = (\<lambda>e dt absorption_times absorption_indices. (None, e))\<rparr>"

text \<open>The body of the loop of \<open>SinkPlane.find_absorption_time\<close>, for one particle.\<close>

definition absorption_time :: "vec3 \<Rightarrow> vec3 \<Rightarrow> real \<Rightarrow> vec3 \<Rightarrow> vec3 \<Rightarrow> real" where
  "absorption_time point normal dt xi vi =
     (let normal_velocity = dot normal vi
      in if normal_velocity = 0.0 then 2.0 * dt
         else dot normal (vsub point xi) / normal_velocity)"

text \<open>The loop reads \<open>v[i]\<close> for every row of \<open>x\<close>: a shorter \<open>v\<close> is an IndexError.\<close>

fun absorption_loop ::
  "vec3 \<Rightarrow> vec3 \<Rightarrow> real \<Rightarrow> vec3 list \<Rightarrow> vec3 list \<Rightarrow> nat list \<Rightarrow> real list
     \<Rightarrow> error + real list" where
  "absorption_loop point normal dt x v [] taus = Inr taus"
| "absorption_loop point normal dt x v (i # rest) taus =
     (if length v \<le> i then Inl IndexError
      else absorption_loop point normal dt x v rest
             (taus @ [absorption_time point normal dt (x ! i) (v ! i)]))"

definition SinkPlane_find_absorption_time ::
  "vec3 \<Rightarrow> vec3 \<Rightarrow> vec3 list \<Rightarrow> vec3 list \<Rightarrow> real \<Rightarrow> error + real list" where
  "SinkPlane_find_absorption_time point normal x v dt =
     absorption_loop point normal dt x v [0..<length x] []"

definition SinkPlane :: "vec3 \<Rightarrow> vec3 \<Rightarrow> sink" where
  "SinkPlane point normal =
     \<lparr>find_absorption_time = SinkPlane_find_absorption_time point normal,
      record_absorption = record_absorption Sink\<rparr>"

text \<open>
  \<open>np.arange(n)[mask]\<close>: the indices where the mask holds; a mask of another length than
  \<open>n\<close> is an IndexError.
\<close>

definition absorbed :: "real \<Rightarrow> real list \<Rightarrow> nat \<Rightarrow> bool" where
  "absorbed dt absorption_times i = (\<bar>absorption_times ! i - 0.5 * dt\<bar> \<le> 0.5 * dt)"

definition process_sink ::
  "numpy \<Rightarrow> real \<Rightarrow> ensemble \<Rightarrow> sink option \<Rightarrow> failure option \<times> ensemble" where
  "process_sink np dt e sink =
     (case sink of
        None \<Rightarrow> (None, e)
      | Some s \<Rightarrow>
          (case find_absorption_time s (ens_x e) (ens_v e) dt of
             Inl err \<Rightarrow> (Some (Raised err), e)
           | Inr absorption_times \<Rightarrow>
               if length absorption_times \<noteq> get_num_ptcls e then (Some (Raised IndexError), e)
               else
                 (let absorption_indices =
                        filter (absorbed dt absorption_times) [0..<get_num_ptcls e]
                  in case record_absorption s e dt absorption_times absorption_indices of
                       (None, e') \<Rightarrow> Ensemble_delete np absorption_indices e'
                     | (Some fl, e') \<Rightarrow> (Some fl, e'))))"

section \<open>The integrator\<close>

text \<open>
  \<open>a += b\<close> on arrays of shape \<open>(n, 3)\<close> and \<open>(k, 3)\<close>: \<open>b\<close> needs as many rows as
  \<open>a\<close>, or one row, which is then added to every row of \<open>a\<close>.
\<close>

definition iadd_rows :: "vec3 list \<Rightarrow> vec3 list \<Rightarrow> error + vec3 list" where
  "iadd_rows a b =
     (if length b = length a then Inr (map2 vadd a b)
      else if length b = 1 then Inr (map (\<lambda>r. vadd r (hd b)) a)
      else Inl ValueError)"

text \<open>The statement \<open>ensemble.x += c * ensemble.v\<close>.\<close>

definition drift :: "real \<Rightarrow> ensemble \<Rightarrow> failure option \<times> ensemble" where
  "drift c e =
     (case iadd_rows (ens_x e) (map (smul c) (ens_v e)) of
        Inl err \<Rightarrow> (Some (Raised err), e)
      | Inr x' \<Rightarrow> (None, e\<lparr>ens_x := x'\<rparr>))"

text \<open>
  A force is an object with a method \<open>force(dt, ensemble, f)\<close> that adds to \<open>f\<close>; it
  reads the ensemble and does not change it.
\<close>

type_synonym force = "real \<Rightarrow> ensemble \<Rightarrow> vec3 list \<Rightarrow> failure + vec3 list"

fun force_loop :: "real \<Rightarrow> ensemble \<Rightarrow> force list \<Rightarrow> vec3 list \<Rightarrow> failure + vec3 list" where
  "force_loop dt e [] f = Inr f"
| "force_loop dt e (force # forces) f =
     (case force dt e f of
        Inl fl \<Rightarrow> Inl fl
      | Inr f' \<Rightarrow> force_loop dt e forces f')"

text \<open>Lines 207 to 213: where the mass comes from.\<close>

definition resolve_mass :: "ensemble \<Rightarrow> error + ndarray" where
  "resolve_mass e =
     (case map_of (ensemble_properties e) ''mass'' of
        Some m \<Rightarrow> Inr m
      | None \<Rightarrow>
          (case map_of (particle_properties e) ''mass'' of
             Some m \<Rightarrow> Inr m
           | None \<Rightarrow> Inl RuntimeError_mass))"

text \<open>
  \<open>f / m\<close> for \<open>f\<close> of shape \<open>(n, 3)\<close> and a mass of any shape, by numpy's broadcasting:
  the number of rows of the quotient (a mass of three dimensions or more gives a quotient
  that cannot be added to the velocities), and the entry of the mass that divides the
  entry \<open>(i, j)\<close>.
\<close>

definition quotient_rows :: "nat \<Rightarrow> ndarray \<Rightarrow> error + nat" where
  "quotient_rows n m =
     (case shape m of
        [] \<Rightarrow> Inr n
      | [b] \<Rightarrow> if b = 1 \<or> b = 3 then Inr n else Inl ValueError
      | [a, b] \<Rightarrow>
          if b \<noteq> 1 \<and> b \<noteq> 3 then Inl ValueError
          else if a = n \<or> a = 1 then Inr n
          else if n = 1 then Inr a
          else Inl ValueError
      | _ \<Rightarrow> Inl ValueError)"

definition mass_at :: "ndarray \<Rightarrow> nat \<Rightarrow> nat \<Rightarrow> real" where
  "mass_at m i j =
     (case shape m of
        [] \<Rightarrow> data m ! 0
      | [b] \<Rightarrow> data m ! (if b = 1 then 0 else j)
      | a # b # _ \<Rightarrow> data m ! ((if a = 1 then 0 else i) * b + (if b = 1 then 0 else j)))"

definition quotient_row :: "vec3 list \<Rightarrow> ndarray \<Rightarrow> nat \<Rightarrow> vec3" where
  "quotient_row f m i =
     (case f ! (if length f = 1 then 0 else i) of
        (f1, f2, f3) \<Rightarrow> (f1 / mass_at m i 0, f2 / mass_at m i 1, f3 / mass_at m i 2))"

text \<open>The statement \<open>ensemble.v += f / m\<close>.\<close>

definition iadd_quotient :: "vec3 list \<Rightarrow> vec3 list \<Rightarrow> ndarray \<Rightarrow> failure + vec3 list" where
  "iadd_quotient v f m =
     (case quotient_rows (length f) m of
        Inl err \<Rightarrow> Inl (Raised err)
      | Inr r \<Rightarrow>
          (case iadd_rows v (map (quotient_row f m) [0..<r]) of
             Inl err \<Rightarrow> Inl (Raised err)
           | Inr v' \<Rightarrow>
               if list_ex (\<lambda>i. mass_at m i 0 = 0 \<or> mass_at m i 1 = 0 \<or> mass_at m i 2 = 0) [0..<r]
               then Inl NonFinite
               else Inr v'))"

definition drift_kick ::
  "numpy \<Rightarrow> real \<Rightarrow> ensemble \<Rightarrow> force list \<Rightarrow> sink option \<Rightarrow> failure option \<times> ensemble" where
  "drift_kick np dt e forces sink =
     (if length forces = 0 then
        (case process_sink np dt e sink of
           (Some fl, e1) \<Rightarrow> (Some fl, e1)
         | (None, e1) \<Rightarrow> drift dt e1)
      else
        (case process_sink np (0.5 * dt) e sink of
           (Some fl, e1) \<Rightarrow> (Some fl, e1)
         | (None, e1) \<Rightarrow>
        (case drift (0.5 * dt) e1 of
           (Some fl, e2) \<Rightarrow> (Some fl, e2)
         | (None, e2) \<Rightarrow>
        (case force_loop dt e2 forces (replicate (length (ens_v e2)) (0, 0, 0)) of
           Inl fl \<Rightarrow> (Some fl, e2)
         | Inr f \<Rightarrow>
        (case resolve_mass e2 of
           Inl err \<Rightarrow> (Some (Raised err), e2)
         | Inr m \<Rightarrow>
        (case iadd_quotient (ens_v e2) f m of
           Inl fl \<Rightarrow> (Some fl, e2)
         | Inr v' \<Rightarrow>
        (case process_sink np (0.5 * dt) (e2\<lparr>ens_v := v'\<rparr>) sink of
           (Some fl, e3) \<Rightarrow> (Some fl, e3)
         | (None, e3) \<Rightarrow> drift (0.5 * dt) e3)))))))"

section \<open>Radiation pressure\<close>











section \<open>Properties of the arrays and of the ensemble\<close>

lemma survivors_eq_map_nth:
  "survivors indices rows = map ((!) rows) (filter (\<lambda>i. i \<notin> set indices) [0..<length rows])"
proof -
  have z: "zip [0..<length rows] rows = map (\<lambda>i. (i, rows ! i)) [0..<length rows]"
    by (rule nth_equalityI) simp_all
  show ?thesis
    unfolding survivors_def z by (simp add: filter_map comp_def)
qed


lemma survivors_nths: "survivors indices rows = nths rows (- set indices)"
proof -
  have z: "zip rows [0..<length rows] = map (\<lambda>i. (rows ! i, i)) [0..<length rows]"
    by (rule nth_equalityI) simp_all
  show ?thesis
    unfolding survivors_eq_map_nth nths_def z by (simp add: filter_map comp_def)
qed







lemma delete_particle_properties:
  "particle_properties (snd (Ensemble_delete np indices e)) = particle_properties e"
  by (simp add: Ensemble_delete_def split: sum.splits)


lemma np_delete_Legacy: "np_delete Legacy rows indices = Inr (survivors indices rows)"
  by (simp add: np_delete_def)


lemma resize_keeps_rows:
  assumes "i < m" "i < length (ens_x e)" "i < length (ens_v e)"
  shows "ens_x (Ensemble_resize m e) ! i = ens_x e ! i" "ens_v (Ensemble_resize m e) ! i = ens_v e ! i"
  using assms by (simp_all add: Ensemble_resize_def rows_resize_def nth_append)


section \<open>Properties of the sources\<close>





section \<open>Properties of the sinks\<close>







lemma absorption_loop_eq:
  "\<forall>i \<in> set is. i < length v \<Longrightarrow>
   absorption_loop point normal dt x v is taus =
     Inr (taus @ map (\<lambda>i. absorption_time point normal dt (x ! i) (v ! i)) is)"
  by (induction "is" arbitrary: taus) simp_all

lemma SinkPlane_taus:
  "length x \<le> length v \<Longrightarrow>
   SinkPlane_find_absorption_time point normal x v dt =
     Inr (map (\<lambda>i. absorption_time point normal dt (x ! i) (v ! i)) [0..<length x])"
  unfolding SinkPlane_find_absorption_time_def
  by (subst absorption_loop_eq) auto


section \<open>Properties of the radiation pressure\<close>









section \<open>The claims\<close>

text \<open>
  C1. \<open>delete(indices)\<close> should remove the particles at the indices from the positions,
  the velocities and every per-particle property array. It removes them from the positions
  and the velocities only: an ensemble of two particles with the property \<open>mass = [1, 2]\<close>
  has, after \<open>delete([0])\<close>, one particle and the same two masses, with either release of
  numpy (the later one raises an AxisError once the positions and velocities are cut).
\<close>

theorem delete_skips_property_arrays:
  "(let e = snd (set_particle_property ''mass'' \<lparr>shape = [2], data = [1, 2]\<rparr> (Ensemble_init 2));
        old = Ensemble_delete Legacy [0] e;
        new = Ensemble_delete Current [0] e
    in map_of (particle_properties e) ''mass'' = Some \<lparr>shape = [2], data = [1, 2]\<rparr>
       \<and> fst old = None \<and> get_num_ptcls (snd old) = 1 \<and> length (ens_v (snd old)) = 1
       \<and> map_of (particle_properties (snd old)) ''mass'' = Some \<lparr>shape = [2], data = [1, 2]\<rparr>
       \<and> fst new = Some (Raised AxisError) \<and> get_num_ptcls (snd new) = 1
       \<and> length (ens_v (snd new)) = 1
       \<and> map_of (particle_properties (snd new)) ''mass'' = Some \<lparr>shape = [2], data = [1, 2]\<rparr>)"
  by (simp add: Let_def set_particle_property_def shape0_def Ensemble_init_def get_num_ptcls_def
      Ensemble_delete_def np_delete_def survivors_def np_delete_0d_def numeral_2_eq_2)

text \<open>
  C2. \<open>resize(M)\<close> should keep the entries at every index below \<open>min(N, M)\<close> in every
  per-particle property array. It resizes a property array to the shape \<open>[M]\<close>, whatever
  its other dimensions: the property \<open>[[1, 2, 3], [4, 5, 6]]\<close> of two particles becomes
  \<open>[1, 2]\<close> under \<open>resize(2)\<close>, and the entry of particle 1 is no longer \<open>[4, 5, 6]\<close>.
\<close>

theorem resize_flattens_property_arrays:
  "(let p = \<lparr>shape = [2, 3], data = [1, 2, 3, 4, 5, 6]\<rparr>;
        e = snd (set_particle_property ''p'' p (Ensemble_init 2));
        e' = Ensemble_resize 2 e
    in map_of (particle_properties e) ''p'' = Some p
       \<and> entry p 1 = \<lparr>shape = [3], data = [4, 5, 6]\<rparr>
       \<and> map_of (particle_properties e') ''p'' = Some \<lparr>shape = [2], data = [1, 2]\<rparr>
       \<and> entry \<lparr>shape = [2], data = [1, 2]\<rparr> 1 = \<lparr>shape = [], data = [2]\<rparr>)"
  by (simp add: Let_def set_particle_property_def shape0_def Ensemble_init_def get_num_ptcls_def
      Ensemble_resize_def nd_resize_def entry_def numeral_2_eq_2 numeral_3_eq_3)





text \<open>
  C5. With no force and no sink, \<open>drift_kick\<close> on an ensemble whose positions and
  velocities have the same number of rows returns with the positions
  \<open>x + dt * v\<close> and everything else unchanged; and on no ensemble does it raise the
  error for a missing mass.
\<close>

theorem drift_kick_kinematic:
  "(length (ens_v e) = length (ens_x e) \<longrightarrow>
      drift_kick np dt e [] None = (None, e\<lparr>ens_x := map2 vadd (ens_x e) (map (smul dt) (ens_v e))\<rparr>))
   \<and> fst (drift_kick np dt e [] None) \<noteq> Some (Raised RuntimeError_mass)"
  by (simp add: drift_kick_def process_sink_def drift_def iadd_rows_def)

theorem drift_kick_kinematic_witness:
  "drift_kick Current 2
     \<lparr>ens_x = [(1, 1, 1), (0, 0, 0)], ens_v = [(1, 2, 3), (0, 0, - 1)],
       ensemble_properties = [], particle_properties = []\<rparr> [] None
   = (None, \<lparr>ens_x = [(3, 5, 7), (0, 0, - 2)], ens_v = [(1, 2, 3), (0, 0, - 1)],
              ensemble_properties = [], particle_properties = []\<rparr>)"
  using drift_kick_kinematic [of "\<lparr>ens_x = [(1, 1, 1), (0, 0, 0)], ens_v = [(1, 2, 3), (0, 0, - 1)],
       ensemble_properties = [], particle_properties = []\<rparr>" Current 2]
  by simp

text \<open>
  C6. In a step with forces, once the first sink processing, the first drift and the
  forces have returned, the mass that divides the accumulated force is the entry \<open>mass\<close>
  of the ensemble properties when there is one (whatever the particle properties hold),
  otherwise the entry \<open>mass\<close> of the particle properties, and without either \<open>drift_kick\<close>
  raises the RuntimeError for the missing mass.
\<close>

theorem drift_kick_mass:
  assumes "forces \<noteq> []"
    and "process_sink np (0.5 * dt) e sink = (None, e1)"
    and "drift (0.5 * dt) e1 = (None, e2)"
    and "force_loop dt e2 forces (replicate (length (ens_v e2)) (0, 0, 0)) = Inr f"
  shows "drift_kick np dt e forces sink =
     (let kick = (\<lambda>m. case iadd_quotient (ens_v e2) f m of
                         Inl fl \<Rightarrow> (Some fl, e2)
                       | Inr v' \<Rightarrow>
                           (case process_sink np (0.5 * dt) (e2\<lparr>ens_v := v'\<rparr>) sink of
                              (Some fl, e3) \<Rightarrow> (Some fl, e3)
                            | (None, e3) \<Rightarrow> drift (0.5 * dt) e3))
      in case map_of (ensemble_properties e2) ''mass'' of
           Some m \<Rightarrow> kick m
         | None \<Rightarrow>
             (case map_of (particle_properties e2) ''mass'' of
                Some m \<Rightarrow> kick m
              | None \<Rightarrow> (Some (Raised RuntimeError_mass), e2)))"
  using assms
  by (simp add: drift_kick_def resolve_mass_def Let_def split: option.splits)

theorem drift_kick_mass_witness:
  "drift_kick Current 1 (Ensemble_init 1) [\<lambda>dt e f. Inr (map (vadd (2, 0, 0)) f)] None
     = (Some (Raised RuntimeError_mass), Ensemble_init 1)
   \<and> drift_kick Current 1
       ((Ensemble_init 1)\<lparr>ensemble_properties := [(''mass'', \<lparr>shape = [], data = [2]\<rparr>)],
                          particle_properties := [(''mass'', \<lparr>shape = [1], data = [4]\<rparr>)]\<rparr>)
       [\<lambda>dt e f. Inr (map (vadd (2, 0, 0)) f)] None
     = (None, \<lparr>ens_x = [(0.5, 0, 0)], ens_v = [(1, 0, 0)],
                ensemble_properties = [(''mass'', \<lparr>shape = [], data = [2]\<rparr>)],
                particle_properties = [(''mass'', \<lparr>shape = [1], data = [4]\<rparr>)]\<rparr>)"
proof -
  let ?F = "[\<lambda>dt e f. Inr (map (vadd (2, 0, 0)) f)] :: force list"
  let ?e = "Ensemble_init 1"
  let ?m = "(Ensemble_init 1)\<lparr>ensemble_properties := [(''mass'', \<lparr>shape = [], data = [2]\<rparr>)],
                          particle_properties := [(''mass'', \<lparr>shape = [1], data = [4]\<rparr>)]\<rparr>"
  have a: "drift_kick Current 1 ?e ?F None = (Some (Raised RuntimeError_mass), ?e)"
    using drift_kick_mass [of ?F Current 1 ?e None ?e ?e "[(2, 0, 0)]"]
    by (simp add: process_sink_def drift_def iadd_rows_def Ensemble_init_def)
  have b: "drift_kick Current 1 ?m ?F None
     = (None, \<lparr>ens_x = [(0.5, 0, 0)], ens_v = [(1, 0, 0)],
                ensemble_properties = [(''mass'', \<lparr>shape = [], data = [2]\<rparr>)],
                particle_properties = [(''mass'', \<lparr>shape = [1], data = [4]\<rparr>)]\<rparr>)"
    using drift_kick_mass [of ?F Current 1 ?m None ?m ?m "[(2, 0, 0)]"]
    by (simp add: process_sink_def drift_def iadd_rows_def Ensemble_init_def iadd_quotient_def
        quotient_rows_def quotient_row_def mass_at_def)
  show ?thesis using a b by simp
qed

text \<open>
  C7. \<open>SinkPlane.find_absorption_time\<close> gives every particle the time \<open>2 * dt\<close> when its
  velocity has no component along the normal, and otherwise the quotient of
  \<open>dot(normal, point - x)\<close> by \<open>dot(normal, v)\<close>, whose divisor is then not zero. Against
  the plane through the origin with normal \<open>(0, 0, 1)\<close> and with \<open>dt = 1\<close>, a particle at
  \<open>z = 5\<close> with \<open>v_z = - 10\<close> has the time \<open>0.5\<close> and \<open>process_sink\<close> deletes it; a
  particle with no velocity along the normal has the time \<open>2 * dt\<close> and, for \<open>dt > 0\<close>, is
  not among the absorbed.
\<close>

theorem SinkPlane_absorption_time:
  "(length x \<le> length v \<longrightarrow>
      find_absorption_time (SinkPlane point normal) x v dt =
        Inr (map (\<lambda>i. if dot normal (v ! i) = 0 then 2 * dt
                       else dot normal (vsub point (x ! i)) / dot normal (v ! i)) [0..<length x]))
   \<and> find_absorption_time (SinkPlane (0, 0, 0) (0, 0, 1)) [(0, 0, 5)] [(0, 0, - 10)] 1 = Inr [0.5]
   \<and> process_sink np 1
        \<lparr>ens_x = [(0, 0, 5)], ens_v = [(0, 0, - 10)], ensemble_properties = [], particle_properties = []\<rparr>
        (Some (SinkPlane (0, 0, 0) (0, 0, 1)))
      = (None, \<lparr>ens_x = [], ens_v = [], ensemble_properties = [], particle_properties = []\<rparr>)
   \<and> (0 < dt \<and> length x \<le> length v \<and> i < length x \<and> dot normal (v ! i) = 0
        \<and> find_absorption_time (SinkPlane point normal) x v dt = Inr taus \<longrightarrow>
        taus ! i = 2 * dt \<and> \<not> absorbed dt taus i)"
proof (intro conjI impI)
  assume "length x \<le> length v"
  then show "find_absorption_time (SinkPlane point normal) x v dt =
        Inr (map (\<lambda>i. if dot normal (v ! i) = 0 then 2 * dt
                       else dot normal (vsub point (x ! i)) / dot normal (v ! i)) [0..<length x])"
    by (simp add: SinkPlane_def SinkPlane_taus absorption_time_def Let_def)
next
  show "find_absorption_time (SinkPlane (0, 0, 0) (0, 0, 1)) [(0, 0, 5)] [(0, 0, - 10)] 1 = Inr [0.5]"
    by (simp add: SinkPlane_def SinkPlane_find_absorption_time_def absorption_time_def)
next
  show "process_sink np 1
        \<lparr>ens_x = [(0, 0, 5)], ens_v = [(0, 0, - 10)], ensemble_properties = [], particle_properties = []\<rparr>
        (Some (SinkPlane (0, 0, 0) (0, 0, 1)))
      = (None, \<lparr>ens_x = [], ens_v = [], ensemble_properties = [], particle_properties = []\<rparr>)"
    by (simp add: process_sink_def SinkPlane_def SinkPlane_find_absorption_time_def absorption_time_def
        get_num_ptcls_def absorbed_def Sink_def Ensemble_delete_def np_delete_def survivors_def)
next
  assume a: "0 < dt \<and> length x \<le> length v \<and> i < length x \<and> dot normal (v ! i) = 0
        \<and> find_absorption_time (SinkPlane point normal) x v dt = Inr taus"
  then have t: "taus = map (\<lambda>i. absorption_time point normal dt (x ! i) (v ! i)) [0..<length x]"
    using SinkPlane_taus[of x v point normal dt] by (simp add: SinkPlane_def)
  show "taus ! i = 2 * dt" using a by (simp add: t absorption_time_def)
  then show "\<not> absorbed dt taus i" using a by (simp add: absorbed_def)
qed

theorem SinkPlane_absorption_time_witness:
  "find_absorption_time (SinkPlane (1, 0, 0) (1, 0, 0)) [(0, 0, 0), (3, 0, 0)] [(2, 1, 0), (0, 1, 1)] 3
     = Inr [0.5, 6]
   \<and> \<not> absorbed 3 [0.5, 6] 1"
proof -
  have l: "length [(0, 0, 0), (3, 0, 0) :: vec3] \<le> length [(2, 1, 0), (0, 1, 1) :: vec3]" by simp
  from SinkPlane_absorption_time [where x = "[(0, 0, 0), (3, 0, 0)]" and v = "[(2, 1, 0), (0, 1, 1)]"
      and point = "(1, 0, 0)" and normal = "(1, 0, 0)" and dt = 3 and np = Current and i = 1
      and taus = "[0.5, 6]"] l
  have t: "find_absorption_time (SinkPlane (1, 0, 0) (1, 0, 0)) [(0, 0, 0), (3, 0, 0)]
             [(2, 1, 0), (0, 1, 1)] 3 = Inr [0.5, 6]"
    by (simp add: upt_rec)
  from SinkPlane_absorption_time [where x = "[(0, 0, 0), (3, 0, 0)]" and v = "[(2, 1, 0), (0, 1, 1)]"
      and point = "(1, 0, 0)" and normal = "(1, 0, 0)" and dt = 3 and np = Current and i = 1
      and taus = "[0.5, 6]"] t
  have "\<not> absorbed 3 [0.5, 6] 1" by simp
  with t show ?thesis by simp
qed









end
